theory Spec2Isabelle
  imports Main "HOL-Library.Word"
begin

unbundle bit_operations_syntax

section \<open>Library functions the manager calls\<close>

subsection \<open>hashlib.md5(...).hexdigest()\<close>

text \<open>
  Strings are byte strings: a path is the UTF-8 text that \<^verbatim>\<open>str.encode()\<close> would
  produce, so \<^verbatim>\<open>.encode()\<close> is the identity on the model. The digest is MD5 as
  RFC 1321 defines it, which is what \<^verbatim>\<open>hashlib.md5\<close> computes.
\<close>

type_synonym u32 = "32 word"

definition md5_K :: "u32 list" where
  "md5_K = [
      0xd76aa478, 0xe8c7b756, 0x242070db, 0xc1bdceee,
      0xf57c0faf, 0x4787c62a, 0xa8304613, 0xfd469501,
      0x698098d8, 0x8b44f7af, 0xffff5bb1, 0x895cd7be,
      0x6b901122, 0xfd987193, 0xa679438e, 0x49b40821,
      0xf61e2562, 0xc040b340, 0x265e5a51, 0xe9b6c7aa,
      0xd62f105d, 0x02441453, 0xd8a1e681, 0xe7d3fbc8,
      0x21e1cde6, 0xc33707d6, 0xf4d50d87, 0x455a14ed,
      0xa9e3e905, 0xfcefa3f8, 0x676f02d9, 0x8d2a4c8a,
      0xfffa3942, 0x8771f681, 0x6d9d6122, 0xfde5380c,
      0xa4beea44, 0x4bdecfa9, 0xf6bb4b60, 0xbebfbc70,
      0x289b7ec6, 0xeaa127fa, 0xd4ef3085, 0x04881d05,
      0xd9d4d039, 0xe6db99e5, 0x1fa27cf8, 0xc4ac5665,
      0xf4292244, 0x432aff97, 0xab9423a7, 0xfc93a039,
      0x655b59c3, 0x8f0ccc92, 0xffeff47d, 0x85845dd1,
      0x6fa87e4f, 0xfe2ce6e0, 0xa3014314, 0x4e0811a1,
      0xf7537e82, 0xbd3af235, 0x2ad7d2bb, 0xeb86d391]"

definition md5_S :: "nat list" where
  "md5_S = [
      7, 12, 17, 22, 7, 12, 17, 22, 7, 12, 17, 22, 7, 12, 17, 22,
      5, 9, 14, 20, 5, 9, 14, 20, 5, 9, 14, 20, 5, 9, 14, 20,
      4, 11, 16, 23, 4, 11, 16, 23, 4, 11, 16, 23, 4, 11, 16, 23,
      6, 10, 15, 21, 6, 10, 15, 21, 6, 10, 15, 21, 6, 10, 15, 21]"

definition rotl32 :: "nat \<Rightarrow> u32 \<Rightarrow> u32" where
  "rotl32 n x = (push_bit n x) OR (drop_bit (32 - n) x)"

text \<open>Padding: the byte 0x80, zeros up to 56 modulo 64, the bit length in 64 bits,
  least significant byte first.\<close>

definition md5_pad :: "string \<Rightarrow> 8 word list" where
  "md5_pad s =
     (let n = length s
      in map of_char s @ [0x80] @ replicate ((119 - n mod 64) mod 64) 0
         @ map (\<lambda>k. ucast (drop_bit (8 * k) (word_of_nat (8 * n) :: 64 word))) [0..<8])"

fun le32 :: "8 word list \<Rightarrow> u32" where
  "le32 [] = 0"
| "le32 (b # bs) = ucast b OR push_bit 8 (le32 bs)"

definition chunks :: "nat \<Rightarrow> 'a list \<Rightarrow> 'a list list" where
  "chunks n xs = map (\<lambda>i. take n (drop (i * n) xs)) [0..<length xs div n]"

type_synonym md5_state = "u32 \<times> u32 \<times> u32 \<times> u32"

definition md5_round :: "u32 list \<Rightarrow> md5_state \<Rightarrow> nat \<Rightarrow> md5_state" where
  "md5_round M st i =
     (case st of (A, B, C, D) \<Rightarrow>
        let (F, g) =
              (if i < 16 then ((B AND C) OR (NOT B AND D), i)
               else if i < 32 then ((D AND B) OR (NOT D AND C), (5 * i + 1) mod 16)
               else if i < 48 then (B XOR C XOR D, (3 * i + 5) mod 16)
               else (C XOR (B OR NOT D), (7 * i) mod 16));
            F' = F + A + md5_K ! i + M ! g
        in (D, B + rotl32 (md5_S ! i) F', B, C))"

definition md5_block :: "md5_state \<Rightarrow> 8 word list \<Rightarrow> md5_state" where
  "md5_block st block =
     (case st of (a0, b0, c0, d0) \<Rightarrow>
        case foldl (md5_round (map le32 (chunks 4 block))) st [0..<64] of
          (A, B, C, D) \<Rightarrow> (a0 + A, b0 + B, c0 + C, d0 + D))"

definition md5_digest :: "string \<Rightarrow> 8 word list" where
  "md5_digest s =
     (case foldl md5_block (0x67452301, 0xefcdab89, 0x98badcfe, 0x10325476)
             (chunks 64 (md5_pad s)) of
        (a, b, c, d) \<Rightarrow>
          concat (map (\<lambda>w. map (\<lambda>k. ucast (drop_bit (8 * k) w)) [0..<4]) [a, b, c, d]))"

definition hex_digit :: "nat \<Rightarrow> char" where
  "hex_digit n = ''0123456789abcdef'' ! n"

definition hexdigest :: "8 word list \<Rightarrow> string" where
  "hexdigest bs =
     concat (map (\<lambda>b. [hex_digit (unat b div 16), hex_digit (unat b mod 16)]) bs)"

definition md5_hexdigest :: "string \<Rightarrow> string" where
  "md5_hexdigest s = hexdigest (md5_digest s)"

subsection \<open>The format directive \<^verbatim>\<open>%d\<close>\<close>

fun digits :: "nat \<Rightarrow> string" where
  "digits n =
     (if n < 10 then [char_of (48 + n)]
      else digits (n div 10) @ [char_of (48 + n mod 10)])"

definition str_int :: "int \<Rightarrow> string" where
  "str_int i = (if i < 0 then ''-'' @ digits (nat (- i)) else digits (nat i))"

section \<open>The world the program runs in\<close>

text \<open>
  The file system holds regular files only; directories and special files are outside
  the model. A file has its bytes and its modification time. The clock is the time
  stamp the next file write receives. The trace lists, in order, the calls the program
  makes to its collaborators: the logger, standard output, the blur filter, the copy,
  the window manager and the display sink.
\<close>

record regfile =
  content :: string
  mtime :: nat

type_synonym filesystem = "string \<rightharpoonup> regfile"

datatype level = INFO | ERROR

datatype event = WINDOW_NEW | WINDOW_CLOSE | WINDOW_MOVE | WORKSPACE_FOCUS

datatype action =
    Log level string
  | Print string
  | Run "string list"
  | Copy string string
  | Connect
  | On event
  | MainLoop
  | GetTree
  | Blur string
  | Unblur string
  | SetBackground string string "(string \<times> string) list"

record world =
  files :: filesystem
  clock :: nat
  trace :: "action list"

text \<open>
  A call ends by returning a value or it fails: it raises one of the exceptions below,
  or it never returns (Blocked). A run that raises ends the process with that uncaught
  exception; a run that is blocked does not end.
\<close>

datatype failure =
    FileNotFoundError
  | SameFileError
  | PermissionError
  | KeyError string
  | AttributeError
  | SystemExit
  | ConnectionError
  | Blocked

definition emit :: "action list \<Rightarrow> world \<Rightarrow> world" where
  "emit as w = w\<lparr>trace := trace w @ as\<rparr>"

text \<open>
  \<^verbatim>\<open>filecmp.cmp(f1, f2)\<close> with its default \<^verbatim>\<open>shallow=True\<close>: both files are
  stat'ed (a missing one raises); when the signatures (file type, size, modification
  time) are identical the files are taken to be equal without being read; otherwise
  they differ when their sizes differ, and else their contents are compared. The memo
  table that filecmp keeps between calls of one process is left out: it answers only a
  call whose two paths and two signatures are those of an earlier call that read the
  contents.
\<close>

definition stat_sig :: "regfile \<Rightarrow> nat \<times> nat" where
  "stat_sig f = (length (content f), mtime f)"

definition filecmp_cmp :: "filesystem \<Rightarrow> string \<Rightarrow> string \<Rightarrow> failure + bool" where
  "filecmp_cmp fs f1 f2 =
     (case fs f1 of
        None \<Rightarrow> Inl FileNotFoundError
      | Some a \<Rightarrow>
          (case fs f2 of
             None \<Rightarrow> Inl FileNotFoundError
           | Some b \<Rightarrow>
               Inr (if stat_sig a = stat_sig b then True
                    else if fst (stat_sig a) = fst (stat_sig b) then content a = content b
                    else False)))"

text \<open>
  \<^verbatim>\<open>shutil.copy(src, dst)\<close>: the bytes of src are written to dst, whose modification
  time is the time of the copy (\<^verbatim>\<open>copy\<close>, unlike \<^verbatim>\<open>copy2\<close>, does not carry the
  source's time over). A missing source and a destination that is the source raise.
\<close>

definition shutil_copy :: "string \<Rightarrow> string \<Rightarrow> world \<Rightarrow> (failure + unit) \<times> world" where
  "shutil_copy src dst w =
     (let w1 = emit [Copy src dst] w in
      case files w1 src of
        None \<Rightarrow> (Inl FileNotFoundError, w1)
      | Some f \<Rightarrow>
          if src = dst then (Inl SameFileError, w1)
          else (Inr (),
                w1\<lparr>files := (files w1)(dst \<mapsto> \<lparr>content = content f, mtime = clock w1\<rparr>),
                   clock := Suc (clock w1)\<rparr>))"

text \<open>
  The external blur filter \<^verbatim>\<open>convert\<close>: it is not installed; or it is found but
  cannot be executed; or running it with an argument vector at a time maps the file
  system to a new one and returns an exit status.
\<close>

datatype tool =
    NotInstalled
  | NotExecutable
  | Installed "string list \<Rightarrow> nat \<Rightarrow> filesystem \<Rightarrow> filesystem \<times> int"

record environment =
  convert :: tool
  sway_socket :: bool

section \<open>The modules \<^verbatim>\<open>paths\<close> and \<^verbatim>\<open>output\<close>\<close>

text \<open>
  The module \<^verbatim>\<open>paths\<close> is not among the sources. Its two path builders are
  parameters of the model: any pair of functions from their arguments to a path.
\<close>

record paths =
  cachedImagePath :: "string \<Rightarrow> string \<Rightarrow> string"
  framePath :: "string \<Rightarrow> int \<Rightarrow> string"

text \<open>Modelled from the spec: \<^verbatim>\<open>paths.exists\<close>, which is not among the sources; the
  cache check "checks whether a file exists at the cached path".\<close>

definition paths_exists :: "filesystem \<Rightarrow> string \<Rightarrow> bool" where
  "paths_exists fs p = (fs p \<noteq> None)"

text \<open>Modelled from the spec: the class \<^verbatim>\<open>Output\<close> of the module \<^verbatim>\<open>output\<close>, which is
  not among the sources. An Output holds its name, the cached wallpaper, the ordered
  list of frame paths and the rendering options. \<^verbatim>\<open>blur()\<close> sets each frame as the
  background on the display sink from index 0 to the last, \<^verbatim>\<open>unblur()\<close> plays the
  same sequence in reverse. The trace records the call itself before the writes.\<close>

record Output =
  out_name :: string
  out_wallpaper :: string
  out_frames :: "string list"
  out_settings :: "(string \<times> string) list"

definition blur :: "Output \<Rightarrow> world \<Rightarrow> world" where
  "blur out w =
     emit (Blur (out_name out)
           # map (\<lambda>frame. SetBackground (out_name out) frame (out_settings out))
               (out_frames out)) w"

definition unblur :: "Output \<Rightarrow> world \<Rightarrow> world" where
  "unblur out w =
     emit (Unblur (out_name out)
           # map (\<lambda>frame. SetBackground (out_name out) frame (out_settings out))
               (rev (out_frames out))) w"

section \<open>blurManager.py\<close>

subsection \<open>genBlurredImage\<close>

text \<open>
  \<^verbatim>\<open>subprocess.run\<close> is called without \<^verbatim>\<open>check=True\<close>: it raises
  FileNotFoundError when the executable is missing, PermissionError when it is found
  but cannot be executed, and returns normally whatever the exit status is. Only
  FileNotFoundError is caught. The exit status is not read. \<^verbatim>\<open>exit()\<close> raises
  SystemExit.
\<close>

definition genBlurredImage :: "tool \<Rightarrow> string \<Rightarrow> string \<Rightarrow> int \<Rightarrow> world \<Rightarrow> (failure + unit) \<times> world" where
  "genBlurredImage cmd inputPath outputPath blurLevel w =
     (let argv = [''convert'', inputPath, ''-blur'', ''0x'' @ str_int blurLevel, outputPath];
          w1 = emit [Run argv] w
      in case cmd of
           NotInstalled \<Rightarrow>
             (Inl SystemExit,
              emit [Log ERROR ''Could not create blurred version of wallpaper, ensure imagemagick is installed''] w1)
         | NotExecutable \<Rightarrow> (Inl PermissionError, w1)
         | Installed exec \<Rightarrow>
             (case exec argv (clock w1) (files w1) of
                (fs', returncode) \<Rightarrow>
                  (Inr (),
                   emit [Log INFO (''Generated image '' @ outputPath)]
                     (w1\<lparr>files := fs', clock := Suc (clock w1)\<rparr>))))"

subsection \<open>verifyWallpaperCache\<close>

definition verifyWallpaperCache :: "paths \<Rightarrow> string \<Rightarrow> string \<Rightarrow> world \<Rightarrow> (failure + bool) \<times> world" where
  "verifyWallpaperCache P wallpaperPath wallpaperHash w =
     (let cachedWallpaper = cachedImagePath P wallpaperPath wallpaperHash in
      case (if paths_exists (files w) cachedWallpaper
            then filecmp_cmp (files w) wallpaperPath cachedWallpaper
            else Inr False) of
        Inl e \<Rightarrow> (Inl e, w)
      | Inr True \<Rightarrow>
          (Inr True,
           emit [Log INFO (''wallpaper '' @ wallpaperPath @ '' is cached as '' @ cachedWallpaper)] w)
      | Inr False \<Rightarrow>
          (case shutil_copy wallpaperPath cachedWallpaper
                  (emit [Log INFO (''wallpaper '' @ wallpaperPath @ '' added to the cache as ''
                                    @ cachedWallpaper)] w) of
             (Inl e, w') \<Rightarrow> (Inl e, w')
           | (Inr u, w') \<Rightarrow> (Inr False, w')))"

subsection \<open>BlurManager.__init__\<close>

definition animationFrames :: "int \<Rightarrow> int \<Rightarrow> int list" where
  "animationFrames blurStrength animationDuration =
     map (\<lambda>i. (i + 1) * (blurStrength div animationDuration))
         (map int [0..<nat animationDuration])"

text \<open>
  A configuration entry \<^verbatim>\<open>outputConfigs[name]\<close>. The image is a path, or absent;
  an absent and an empty image are both false for \<^verbatim>\<open>if not outputCfg['image']\<close>.
  The configuration is a dict, which iterates in insertion order: a list of pairs.
\<close>

record output_cfg =
  cfg_image :: "string option"
  cfg_filter :: string
  cfg_anchor :: string
  cfg_scaling_mode :: string

text \<open>The object under construction: \<^verbatim>\<open>self.outputs\<close>.\<close>

record manager =
  outputs :: "string \<rightharpoonup> Output"

definition imageHash :: "string \<Rightarrow> string" where
  "imageHash img = md5_hexdigest img"

text \<open>The Output that lines 55 to 64 build for a configuration entry with an image.\<close>

definition makeOutput :: "paths \<Rightarrow> int list \<Rightarrow> string \<Rightarrow> string \<Rightarrow> output_cfg \<Rightarrow> Output" where
  "makeOutput P frames name img outputCfg =
     \<lparr>out_name = name,
      out_wallpaper = cachedImagePath P img (imageHash img),
      out_frames = map (\<lambda>frame. framePath P (imageHash img) frame) frames,
      out_settings = [(''filter'', cfg_filter outputCfg),
                      (''anchor'', cfg_anchor outputCfg),
                      (''scaling-mode'', cfg_scaling_mode outputCfg)]\<rparr>"

text \<open>
  \<^verbatim>\<open>pool.starmap(genBlurredImage, jobs)\<close> hands every job to a worker process and
  blocks until the result of every job has arrived. The model runs the jobs in the
  order of the list, which is one of the interleavings. A job that raises an exception
  delivers it, and once every job is done the first exception is raised in the caller.
  A job that exits its worker delivers nothing (SystemExit is not an Exception, the
  worker does not catch it): the result never arrives and the call never returns.
\<close>

fun run_jobs :: "tool \<Rightarrow> (string \<times> string \<times> int) list \<Rightarrow> world \<Rightarrow> (failure + unit) list \<times> world" where
  "run_jobs cmd [] w = ([], w)"
| "run_jobs cmd ((inputPath, outputPath, blurLevel) # jobs) w =
     (case genBlurredImage cmd inputPath outputPath blurLevel w of
        (r, w') \<Rightarrow>
          (case run_jobs cmd jobs w' of
             (rs, w'') \<Rightarrow> (r # rs, w'')))"

definition starmap :: "tool \<Rightarrow> (string \<times> string \<times> int) list \<Rightarrow> world \<Rightarrow> (failure + unit) \<times> world" where
  "starmap cmd jobs w =
     (case run_jobs cmd jobs w of
        (rs, w') \<Rightarrow>
          (if Inl SystemExit \<in> set rs then Inl Blocked
           else case find isl rs of None \<Rightarrow> Inr () | Some r \<Rightarrow> r,
           w'))"

text \<open>The body of the loop over the configuration (lines 46 to 77), for one name.\<close>

definition init_output :: "environment \<Rightarrow> paths \<Rightarrow> int list \<Rightarrow> string \<Rightarrow> output_cfg \<Rightarrow> manager \<Rightarrow> world \<Rightarrow> (failure + manager) \<times> world" where
  "init_output env P frames name outputCfg self w =
     (case cfg_image outputCfg of
        None \<Rightarrow> (Inr self, emit [Log INFO (''Output '' @ name @ '' has no wallpaper set'')] w)
      | Some img \<Rightarrow>
          if img = [] then
            (Inr self, emit [Log INFO (''Output '' @ name @ '' has no wallpaper set'')] w)
          else
           (let cachedImage = cachedImagePath P img (imageHash img);
                self' = self\<lparr>outputs := (outputs self)(name \<mapsto> makeOutput P frames name img outputCfg)\<rparr>
            in case verifyWallpaperCache P img (imageHash img) w of
                 (Inl e, w1) \<Rightarrow> (Inl e, w1)
               | (Inr False, w1) \<Rightarrow>
                   (case starmap (convert env)
                           (map (\<lambda>frame. (cachedImage, framePath P (imageHash img) frame, frame)) frames)
                           (emit [Print ''Generating blurred wallpaper frames'',
                                  Print ''This may take a minute...''] w1) of
                      (Inl e, w2) \<Rightarrow> (Inl e, w2)
                    | (Inr u, w2) \<Rightarrow>
                        (Inr self', emit [Print (''Blurred wallpaper generated for '' @ name)] w2))
               | (Inr True, w1) \<Rightarrow>
                   (Inr self', emit [Print (''Blurred wallpaper exists for '' @ name)] w1)))"

fun init_loop :: "environment \<Rightarrow> paths \<Rightarrow> int list \<Rightarrow> (string \<times> output_cfg) list \<Rightarrow> manager \<Rightarrow> world \<Rightarrow> (failure + manager) \<times> world" where
  "init_loop env P frames [] self w = (Inr self, w)"
| "init_loop env P frames ((name, outputCfg) # rest) self w =
     (case init_output env P frames name outputCfg self w of
        (Inl e, w') \<Rightarrow> (Inl e, w')
      | (Inr self', w') \<Rightarrow> init_loop env P frames rest self' w')"

definition BlurManager_init :: "environment \<Rightarrow> paths \<Rightarrow> (string \<times> output_cfg) list \<Rightarrow> int \<Rightarrow> int \<Rightarrow> world \<Rightarrow> (failure + manager) \<times> world" where
  "BlurManager_init env P outputConfigs blurStrength animationDuration w =
     (let w1 = emit [Connect] w in
      if sway_socket env
      then init_loop env P (animationFrames blurStrength animationDuration) outputConfigs
             \<lparr>outputs = Map.empty\<rparr> w1
      else (Inl ConnectionError, w1))"

subsection \<open>BlurManager.handleBlur\<close>

text \<open>
  What the window manager answers when the handler runs: the container that
  \<^verbatim>\<open>get_tree().find_focused()\<close> returns, or None, and the container that
  \<^verbatim>\<open>.workspace()\<close> returns for it, or None. A container is an object; two containers
  are \<^verbatim>\<open>==\<close> when they are the same object, which the model reads off the
  container's id.
\<close>

datatype con = Con (con_id: nat) (ipc_data: "(string \<times> string) list")

record tree =
  find_focused :: "con option"
  workspace :: "con option"

definition handleBlur :: "manager \<Rightarrow> tree \<Rightarrow> world \<Rightarrow> (failure + unit) \<times> world" where
  "handleBlur self t w =
     (let w1 = emit [GetTree] w in
      case find_focused t of
        None \<Rightarrow> (Inl AttributeError, w1)
      | Some focusedWindow \<Rightarrow>
          (case workspace t of
             None \<Rightarrow> (Inl AttributeError, w1)
           | Some focusedWorkspace \<Rightarrow>
               (case map_of (ipc_data focusedWorkspace) ''output'' of
                  None \<Rightarrow> (Inl (KeyError ''output''), w1)
                | Some focusedOutputName \<Rightarrow>
                    (case outputs self focusedOutputName of
                       None \<Rightarrow>
                         (Inr (),
                          emit [Log INFO (''Output '' @ focusedOutputName @ '' is not an Output object'')] w1)
                     | Some out \<Rightarrow>
                         if con_id focusedWindow = con_id focusedWorkspace
                         then (Inr (), unblur out w1)
                         else (Inr (), blur out w1)))))"

subsection \<open>BlurManager.start\<close>

text \<open>
  \<^verbatim>\<open>SWAY.main()\<close> hands each incoming event of a subscribed kind to the handler, one
  at a time and in order; an exception that leaves the handler leaves \<^verbatim>\<open>main()\<close>.
  The events are given by the answers the window manager has for each of them.
\<close>

fun main_loop :: "manager \<Rightarrow> tree list \<Rightarrow> world \<Rightarrow> (failure + unit) \<times> world" where
  "main_loop self [] w = (Inr (), w)"
| "main_loop self (t # ts) w =
     (case handleBlur self t w of
        (Inl e, w') \<Rightarrow> (Inl e, w')
      | (Inr u, w') \<Rightarrow> main_loop self ts w')"

definition start :: "manager \<Rightarrow> tree list \<Rightarrow> world \<Rightarrow> (failure + unit) \<times> world" where
  "start self events w =
     main_loop self events
       (emit [Print ''Listening...'', On WINDOW_NEW, On WINDOW_CLOSE, On WINDOW_MOVE,
              On WORKSPACE_FOCUS, MainLoop] w)"

text \<open>Modelled from the spec: the caller of the manager, which is not among the sources.
  "Build every Output, for each ensure the cache and generate the missing frames, only
  after all outputs are ready subscribe to the event stream and enter the listen loop":
  a run constructs the manager and, when the constructor returns, starts it.
  \<^verbatim>\<open>start\<close> is a method, so it cannot run before \<^verbatim>\<open>__init__\<close> has returned.\<close>

definition run :: "environment \<Rightarrow> paths \<Rightarrow> (string \<times> output_cfg) list \<Rightarrow> int \<Rightarrow> int \<Rightarrow> tree list \<Rightarrow> world \<Rightarrow> (failure + unit) \<times> world" where
  "run env P outputConfigs blurStrength animationDuration events w =
     (case BlurManager_init env P outputConfigs blurStrength animationDuration w of
        (Inl e, w') \<Rightarrow> (Inl e, w')
      | (Inr self, w') \<Rightarrow> start self events w')"

section \<open>Reading a trace\<close>

fun subscribes :: "action \<Rightarrow> bool" where
  "subscribes (On ev) = True"
| "subscribes MainLoop = True"
| "subscribes a = False"

fun generates :: "action \<Rightarrow> bool" where
  "generates (Run argv) = True"
| "generates (Copy src dst) = True"
| "generates a = False"

fun is_run :: "action \<Rightarrow> bool" where
  "is_run (Run argv) = True"
| "is_run a = False"

fun is_log :: "action \<Rightarrow> bool" where
  "is_log (Log lv msg) = True"
| "is_log a = False"


fun is_sink_write :: "action \<Rightarrow> bool" where
  "is_sink_write (SetBackground name frame opts) = True"
| "is_sink_write a = False"

fun calls_blur :: "action \<Rightarrow> bool" where
  "calls_blur (Blur name) = True"
| "calls_blur a = False"

fun calls_unblur :: "action \<Rightarrow> bool" where
  "calls_unblur (Unblur name) = True"
| "calls_unblur a = False"

text \<open>The argument vector of the filter for one frame of an image.\<close>

definition frame_job :: "paths \<Rightarrow> string \<Rightarrow> int \<Rightarrow> string list" where
  "frame_job P img frame =
     [''convert'', cachedImagePath P img (imageHash img), ''-blur'', ''0x'' @ str_int frame,
      framePath P (imageHash img) frame]"

text \<open>
  What a trace shows of the calls made for an image: the cache check's report of a hit,
  or the copy into the cache together with one call of the filter per frame. It speaks
  of the calls only, not of the files they leave.
\<close>

definition handled :: "paths \<Rightarrow> int list \<Rightarrow> action list \<Rightarrow> string \<Rightarrow> bool" where
  "handled P frames as img =
     (Log INFO (''wallpaper '' @ img @ '' is cached as '' @ cachedImagePath P img (imageHash img))
        \<in> set as
      \<or> (Copy img (cachedImagePath P img (imageHash img)) \<in> set as
         \<and> list_all (\<lambda>frame. Run (frame_job P img frame) \<in> set as) frames))"

definition cfg_handled :: "paths \<Rightarrow> int list \<Rightarrow> action list \<Rightarrow> output_cfg \<Rightarrow> bool" where
  "cfg_handled P frames as outputCfg =
     (case cfg_image outputCfg of
        None \<Rightarrow> True
      | Some img \<Rightarrow> img = [] \<or> handled P frames as img)"

text \<open>The mapping from names to Outputs, read off the configuration alone.\<close>

fun configured_outputs :: "paths \<Rightarrow> int list \<Rightarrow> (string \<times> output_cfg) list \<Rightarrow> (string \<rightharpoonup> Output) \<Rightarrow> (string \<rightharpoonup> Output)" where
  "configured_outputs P frames [] outs = outs"
| "configured_outputs P frames ((name, outputCfg) # rest) outs =
     configured_outputs P frames rest
       (case cfg_image outputCfg of
          None \<Rightarrow> outs
        | Some img \<Rightarrow>
            if img = [] then outs
            else outs(name \<mapsto> makeOutput P frames name img outputCfg))"

section \<open>Concrete inputs\<close>

text \<open>One layout of the cache directory, a wallpaper, its configuration entry, two
  installed filters (one that writes the frame, one that fails with status 1), the
  environments with each filter, with none and with one that cannot be executed, and
  a few states of the file system: the wallpaper not cached yet; the wallpaper replaced
  by bytes of the same size, with the modification time of the cached copy and with a
  later one; the wallpaper cached; the wallpaper replaced by bytes of another size.\<close>

definition example_paths :: paths where
  "example_paths =
     \<lparr>cachedImagePath = (\<lambda>path h. ''/cache/img-'' @ h),
      framePath = (\<lambda>h frame. ''/cache/frame-'' @ h @ ''-'' @ str_int frame @ ''.png'')\<rparr>"

definition wall :: string where
  "wall = ''/home/u/wall.png''"

definition wall_cached :: string where
  "wall_cached = cachedImagePath example_paths wall (imageHash wall)"

definition wall_cfg :: output_cfg where
  "wall_cfg = \<lparr>cfg_image = Some wall, cfg_filter = ''Good'', cfg_anchor = ''center'',
                cfg_scaling_mode = ''fill''\<rparr>"

definition working_convert :: tool where
  "working_convert =
     Installed (\<lambda>argv now fs.
       case fs (argv ! 1) of
         None \<Rightarrow> (fs, 1)
       | Some f \<Rightarrow> (fs(argv ! 4 \<mapsto> \<lparr>content = argv ! 3 @ content f, mtime = now\<rparr>), 0))"

definition failing_convert :: tool where
  "failing_convert = Installed (\<lambda>argv now fs. (fs, 1))"

definition fresh_world :: world where
  "fresh_world =
     \<lparr>files = [wall \<mapsto> \<lparr>content = ''PNG-new'', mtime = 7\<rparr>], clock = 9, trace = []\<rparr>"

definition stale_world :: world where
  "stale_world =
     \<lparr>files = [wall \<mapsto> \<lparr>content = ''PNG-new'', mtime = 7\<rparr>,
               wall_cached \<mapsto> \<lparr>content = ''PNG-old'', mtime = 7\<rparr>],
      clock = 9, trace = []\<rparr>"


definition hit_world :: world where
  "hit_world =
     \<lparr>files = [wall \<mapsto> \<lparr>content = ''PNG-new'', mtime = 7\<rparr>,
               wall_cached \<mapsto> \<lparr>content = ''PNG-new'', mtime = 8\<rparr>],
      clock = 9, trace = []\<rparr>"

definition working_env :: environment where
  "working_env = \<lparr>convert = working_convert, sway_socket = True\<rparr>"

definition failing_env :: environment where
  "failing_env = \<lparr>convert = failing_convert, sway_socket = True\<rparr>"



text \<open>Three answers of the window manager: nothing is focused; the focused container
  is a workspace of the named output (the workspace is empty); a window is focused on
  a workspace of the named output.\<close>

definition no_focus :: tree where
  "no_focus = \<lparr>find_focused = None, workspace = None\<rparr>"

definition empty_workspace :: "string \<Rightarrow> tree" where
  "empty_workspace name =
     \<lparr>find_focused = Some (Con 4 [(''type'', ''workspace''), (''output'', name)]),
      workspace = Some (Con 4 [(''type'', ''workspace''), (''output'', name)])\<rparr>"

definition window_on :: "string \<Rightarrow> tree" where
  "window_on name =
     \<lparr>find_focused = Some (Con 9 [(''type'', ''con'')]),
      workspace = Some (Con 4 [(''type'', ''workspace''), (''output'', name)])\<rparr>"

definition replaced_world :: world where
  "replaced_world =
     \<lparr>files = [wall \<mapsto> \<lparr>content = ''JPEG-other-bytes'', mtime = 12\<rparr>,
               wall_cached \<mapsto> \<lparr>content = ''PNG-new'', mtime = 8\<rparr>],
      clock = 13, trace = []\<rparr>"

text \<open>The manager that the configuration of the one wallpaper yields, for strength 20
  and duration 4.\<close>

definition wall_output :: Output where
  "wall_output = makeOutput example_paths (animationFrames 20 4) ''eDP-1'' wall wall_cfg"

definition wall_manager :: manager where
  "wall_manager = \<lparr>outputs = [''eDP-1'' \<mapsto> wall_output]\<rparr>"

section \<open>Traces of the operations\<close>

lemma emit_simps [simp]:
  "trace (emit as w) = trace w @ as"
  "files (emit as w) = files w"
  "clock (emit as w) = clock w"
  by (simp_all add: emit_def)

lemma shutil_copy_trace:
  "shutil_copy src dst w = (r, w') \<Longrightarrow> trace w' = trace w @ [Copy src dst]"
  by (auto simp: shutil_copy_def Let_def split: option.splits if_splits)

lemma verify_hit:
  assumes "verifyWallpaperCache P p h w = (Inr True, w')"
  shows "w' = emit [Log INFO (''wallpaper '' @ p @ '' is cached as '' @ cachedImagePath P p h)] w"
  using assms
  by (auto simp: verifyWallpaperCache_def Let_def split: sum.splits bool.splits prod.splits)

lemma verify_miss:
  assumes "verifyWallpaperCache P p h w = (Inr False, w')"
  shows "trace w' = trace w @ [Log INFO (''wallpaper '' @ p @ '' added to the cache as '' @ cachedImagePath P p h),
           Copy p (cachedImagePath P p h)]"
  using assms
  by (auto simp: verifyWallpaperCache_def Let_def dest!: shutil_copy_trace split: sum.splits bool.splits prod.splits)

lemma verify_trace:
  assumes "verifyWallpaperCache P p h w = (r, w')"
  shows "\<exists>new. trace w' = trace w @ new \<and> list_all (\<lambda>a. is_log a \<or> generates a) new"
  using assms
  by (auto simp: verifyWallpaperCache_def Let_def dest!: shutil_copy_trace split: sum.splits bool.splits prod.splits)

lemma gen_trace:
  assumes "genBlurredImage cmd i out lvl w = (r, w')"
  shows "\<exists>rest. trace w' = trace w @ Run [''convert'', i, ''-blur'', ''0x'' @ str_int lvl, out] # rest
           \<and> list_all is_log rest"
  using assms
  by (auto simp: genBlurredImage_def Let_def split: tool.splits prod.splits)

lemma run_jobs_trace:
  assumes "run_jobs cmd jobs w = (rs, w')"
  shows "\<exists>new. trace w' = trace w @ new \<and> list_all (\<lambda>a. is_log a \<or> is_run a) new
           \<and> list_all (\<lambda>(i, out, lvl). Run [''convert'', i, ''-blur'', ''0x'' @ str_int lvl, out] \<in> set new) jobs
           \<and> list_ex is_run new = (jobs \<noteq> [])"
  using assms
proof (induction jobs arbitrary: w rs w')
  case Nil
  then show ?case by simp
next
  case (Cons job jobs)
  obtain i out lvl where job: "job = (i, out, lvl)" by (cases job) auto
  obtain r1 w1 where g: "genBlurredImage cmd i out lvl w = (r1, w1)" by fastforce
  obtain rs2 w2 where j: "run_jobs cmd jobs w1 = (rs2, w2)" by fastforce
  from Cons.prems job g j have w': "w' = w2" by simp
  from gen_trace[OF g] obtain rest where
    t1: "trace w1 = trace w @ Run [''convert'', i, ''-blur'', ''0x'' @ str_int lvl, out] # rest"
    and lg: "list_all is_log rest" by blast
  from Cons.IH[OF j] obtain new where
    n: "trace w2 = trace w1 @ new" "list_all (\<lambda>a. is_log a \<or> is_run a) new"
       "list_all (\<lambda>(i, out, lvl). Run [''convert'', i, ''-blur'', ''0x'' @ str_int lvl, out] \<in> set new) jobs"
    by blast
  show ?case
    apply (rule exI[of _ "Run [''convert'', i, ''-blur'', ''0x'' @ str_int lvl, out] # rest @ new"])
    using n t1 lg job w' by (auto simp: list_all_iff)
qed

lemma starmap_trace:
  assumes "starmap cmd jobs w = (r, w')"
  shows "\<exists>new. trace w' = trace w @ new \<and> list_all (\<lambda>a. is_log a \<or> is_run a) new
           \<and> (r = Inr () \<longrightarrow> list_all (\<lambda>(i, out, lvl). Run [''convert'', i, ''-blur'', ''0x'' @ str_int lvl, out] \<in> set new) jobs)"
proof -
  obtain rs w2 where j: "run_jobs cmd jobs w = (rs, w2)" by fastforce
  with assms have "w' = w2" by (simp add: starmap_def)
  with run_jobs_trace[OF j] show ?thesis by blast
qed

lemma log_or_run_not_subscribes: "is_log a \<or> is_run a \<Longrightarrow> \<not> subscribes a"
  by (cases a) auto

lemma log_or_gen_not_subscribes: "is_log a \<or> generates a \<Longrightarrow> \<not> subscribes a"
  by (cases a) auto

lemma no_sub_log_gen:
  "list_all (\<lambda>a. is_log a \<or> generates a) new \<Longrightarrow> \<not> list_ex subscribes new"
  unfolding list_all_iff list_ex_iff using log_or_gen_not_subscribes by blast

lemma no_sub_log_run:
  "list_all (\<lambda>a. is_log a \<or> is_run a) new \<Longrightarrow> \<not> list_ex subscribes new"
  unfolding list_all_iff list_ex_iff using log_or_run_not_subscribes by blast

lemma handled_mono: "handled P frames as img \<Longrightarrow> handled P frames (pre @ as @ post) img"
  by (auto simp: handled_def list_all_iff)

lemma cfg_handled_mono:
  "cfg_handled P frames as c \<Longrightarrow> cfg_handled P frames (pre @ as @ post) c"
  by (auto simp: cfg_handled_def dest: handled_mono split: option.splits)

lemma init_output_trace:
  assumes "init_output env P frames name cfg self w = (r, w')"
  shows "\<exists>new. trace w' = trace w @ new \<and> \<not> list_ex subscribes new
           \<and> (\<forall>m. r = Inr m \<longrightarrow> cfg_handled P frames new cfg)"
proof (cases "cfg_image cfg")
  case None
  with assms show ?thesis by (auto simp: init_output_def cfg_handled_def)
next
  case (Some img)
  show ?thesis
  proof (cases "img = []")
    case True
    with Some assms show ?thesis by (auto simp: init_output_def cfg_handled_def)
  next
    case False
    obtain rv w1 where v: "verifyWallpaperCache P img (imageHash img) w = (rv, w1)" by fastforce
    show ?thesis
    proof (cases rv)
      case (Inl e)
      from verify_trace[OF v] obtain new where
        "trace w1 = trace w @ new" "list_all (\<lambda>a. is_log a \<or> generates a) new" by blast
      moreover from Inl v Some False assms have "r = Inl e" "w' = w1"
        by (auto simp: init_output_def Let_def)
      ultimately show ?thesis by (auto dest: no_sub_log_gen)
    next
      case (Inr hit)
      show ?thesis
      proof (cases hit)
        case True
        with Inr v have "w1 = emit [Log INFO (''wallpaper '' @ img @ '' is cached as '' @ cachedImagePath P img (imageHash img))] w"
          by (auto dest: verify_hit)
        with True Inr v Some False assms show ?thesis
          by (auto simp: init_output_def Let_def cfg_handled_def handled_def)
      next
        case miss: False
        with Inr v have t1: "trace w1 = trace w @ [Log INFO (''wallpaper '' @ img @ '' added to the cache as '' @ cachedImagePath P img (imageHash img)),
           Copy img (cachedImagePath P img (imageHash img))]"
          by (auto dest: verify_miss)
        let ?jobs = "map (\<lambda>frame. (cachedImagePath P img (imageHash img), framePath P (imageHash img) frame, frame)) frames"
        let ?w1 = "emit [Print ''Generating blurred wallpaper frames'', Print ''This may take a minute...''] w1"
        obtain rs w2 where s: "starmap (convert env) ?jobs ?w1 = (rs, w2)" by fastforce
        from starmap_trace[OF s] obtain new where
          n: "trace w2 = trace ?w1 @ new" "list_all (\<lambda>a. is_log a \<or> is_run a) new"
             "rs = Inr () \<longrightarrow> list_all (\<lambda>(i, out, lvl). Run [''convert'', i, ''-blur'', ''0x'' @ str_int lvl, out] \<in> set new) ?jobs"
          by blast
        have ns: "\<not> list_ex subscribes new"
          using n(2) by (rule no_sub_log_run)
        show ?thesis
        proof (cases rs)
          case (Inl e)
          with miss Inr v Some False assms s have "r = Inl e" "w' = w2"
            by (auto simp: init_output_def Let_def)
          with n(1) t1 ns show ?thesis by (auto simp: list_ex_iff)
        next
          case (Inr u)
          with miss \<open>rv = Inr hit\<close> v Some False assms s
          have w': "w' = emit [Print (''Blurred wallpaper generated for '' @ name)] w2"
            by (auto simp: init_output_def Let_def)
          from Inr n(3) have "list_all (\<lambda>frame. Run (frame_job P img frame) \<in> set new) frames"
            by (auto simp: list_all_iff frame_job_def)
          then have "cfg_handled P frames
              ([Log INFO (''wallpaper '' @ img @ '' added to the cache as '' @ cachedImagePath P img (imageHash img)),
                Copy img (cachedImagePath P img (imageHash img)),
                Print ''Generating blurred wallpaper frames'', Print ''This may take a minute...'']
               @ new @ [Print (''Blurred wallpaper generated for '' @ name)]) cfg"
            using Some by (auto simp: cfg_handled_def handled_def list_all_iff)
          moreover from miss \<open>rv = Inr hit\<close> v Some False assms s Inr have "\<exists>m. r = Inr m"
            by (auto simp: init_output_def Let_def)
          ultimately show ?thesis
            using w' n(1) t1 ns by (auto simp: list_ex_iff)
        qed
      qed
    qed
  qed
qed

lemma init_loop_trace:
  assumes "init_loop env P frames cfgs self w = (r, w')"
  shows "\<exists>new. trace w' = trace w @ new \<and> \<not> list_ex subscribes new
           \<and> (\<forall>m. r = Inr m \<longrightarrow> list_all (\<lambda>(name, c). cfg_handled P frames new c) cfgs)"
  using assms
proof (induction cfgs arbitrary: self w)
  case Nil
  then show ?case by simp
next
  case (Cons nc cfgs)
  obtain name c where nc: "nc = (name, c)" by (cases nc) auto
  obtain r1 w1 where o: "init_output env P frames name c self w = (r1, w1)" by fastforce
  from init_output_trace[OF o] obtain n1 where
    n1: "trace w1 = trace w @ n1" "\<not> list_ex subscribes n1"
        "\<forall>m. r1 = Inr m \<longrightarrow> cfg_handled P frames n1 c" by blast
  show ?case
  proof (cases r1)
    case (Inl e)
    with Cons.prems nc o have "r = Inl e" "w' = w1" by auto
    with n1 show ?thesis by auto
  next
    case (Inr self')
    with Cons.prems nc o have l: "init_loop env P frames cfgs self' w1 = (r, w')" by simp
    from Cons.IH[OF l] obtain n2 where
      n2: "trace w' = trace w1 @ n2" "\<not> list_ex subscribes n2"
          "\<forall>m. r = Inr m \<longrightarrow> list_all (\<lambda>(name, c). cfg_handled P frames n2 c) cfgs" by blast
    have a: "cfg_handled P frames (n1 @ n2) c"
      using n1(3) Inr cfg_handled_mono[of P frames n1 c "[]" n2] by simp
    have b: "list_all (\<lambda>(name, c). cfg_handled P frames (n1 @ n2) c) cfgs" if "r = Inr m" for m
      using n2(3) that cfg_handled_mono[of P frames n2 _ n1 "[]"]
      by (auto simp: list_all_iff)
    show ?thesis
      apply (rule exI[of _ "n1 @ n2"])
      using n1 n2 a b nc by (auto simp: list_ex_iff)
  qed
qed

lemma init_output_outputs:
  assumes "init_output env P frames name c self w = (Inr self', w')"
  shows "outputs self' =
     (case cfg_image c of None \<Rightarrow> outputs self
      | Some img \<Rightarrow> if img = [] then outputs self
                    else (outputs self)(name \<mapsto> makeOutput P frames name img c))"
  using assms
  by (auto simp: init_output_def Let_def split: option.splits if_splits prod.splits sum.splits bool.splits)

lemma init_loop_outputs:
  assumes "init_loop env P frames cfgs self w = (Inr m, w')"
  shows "outputs m = configured_outputs P frames cfgs (outputs self)"
  using assms
proof (induction cfgs arbitrary: self w)
  case Nil
  then show ?case by simp
next
  case (Cons nc cfgs)
  obtain name c where nc: "nc = (name, c)" by (cases nc) auto
  obtain r1 w1 where o: "init_output env P frames name c self w = (r1, w1)" by fastforce
  show ?case
  proof (cases r1)
    case (Inl e)
    with Cons.prems nc o show ?thesis by simp
  next
    case (Inr self')
    with Cons.prems nc o have l: "init_loop env P frames cfgs self' w1 = (Inr m, w')" by simp
    from Cons.IH[OF l] init_output_outputs[OF o[unfolded Inr]] nc
    show ?thesis by simp
  qed
qed

lemma init_trace:
  assumes "BlurManager_init env P cfgs S N w = (r, w')"
  shows "\<exists>new. trace w' = trace w @ new \<and> \<not> list_ex subscribes new
           \<and> (\<forall>m. r = Inr m \<longrightarrow>
                 list_all (\<lambda>(name, c). cfg_handled P (animationFrames S N) new c) cfgs
                 \<and> outputs m = configured_outputs P (animationFrames S N) cfgs Map.empty)"
proof (cases "sway_socket env")
  case False
  with assms show ?thesis by (auto simp: BlurManager_init_def Let_def)
next
  case True
  with assms have l: "init_loop env P (animationFrames S N) cfgs \<lparr>outputs = Map.empty\<rparr> (emit [Connect] w) = (r, w')"
    by (simp add: BlurManager_init_def Let_def)
  from init_loop_trace[OF l] obtain new where
    n: "trace w' = trace (emit [Connect] w) @ new" "\<not> list_ex subscribes new"
       "\<forall>m. r = Inr m \<longrightarrow> list_all (\<lambda>(name, c). cfg_handled P (animationFrames S N) new c) cfgs"
    by blast
  have b: "list_all (\<lambda>(name, c). cfg_handled P (animationFrames S N) (Connect # new) c) cfgs" if "r = Inr m" for m
    using n(3) that cfg_handled_mono[of P "animationFrames S N" new _ "[Connect]" "[]"]
    by (auto simp: list_all_iff)
  have c: "outputs m = configured_outputs P (animationFrames S N) cfgs Map.empty" if "r = Inr m" for m
    using init_loop_outputs[OF l[unfolded that]] by simp
  show ?thesis
    apply (rule exI[of _ "Connect # new"])
    using n b c by (auto simp: list_ex_iff)
qed

lemma handleBlur_trace:
  assumes "handleBlur self t w = (r, w')"
  shows "\<exists>new. trace w' = trace w @ new \<and> \<not> list_ex generates new \<and> \<not> list_ex subscribes new"
  using assms
  by (auto simp: handleBlur_def Let_def blur_def unblur_def list_ex_iff
      split: option.splits if_splits)

lemma main_loop_trace:
  assumes "main_loop self ts w = (r, w')"
  shows "\<exists>new. trace w' = trace w @ new \<and> \<not> list_ex generates new \<and> \<not> list_ex subscribes new"
  using assms
proof (induction ts arbitrary: w)
  case Nil
  then show ?case by simp
next
  case (Cons t ts)
  obtain r1 w1 where h: "handleBlur self t w = (r1, w1)" by fastforce
  from handleBlur_trace[OF h] obtain n1 where
    n1: "trace w1 = trace w @ n1" "\<not> list_ex generates n1" "\<not> list_ex subscribes n1" by blast
  show ?case
  proof (cases r1)
    case (Inl e)
    with Cons.prems h n1 show ?thesis by auto
  next
    case (Inr u)
    with Cons.prems h have "main_loop self ts w1 = (r, w')" by simp
    from Cons.IH[OF this] obtain n2 where
      "trace w' = trace w1 @ n2" "\<not> list_ex generates n2" "\<not> list_ex subscribes n2" by blast
    with n1 show ?thesis
      by (intro exI[of _ "n1 @ n2"]) (auto simp: list_ex_iff)
  qed
qed

lemma start_trace:
  assumes "start self events w = (r, w')"
  shows "\<exists>new. trace w' = trace w @ [Print ''Listening...'', On WINDOW_NEW, On WINDOW_CLOSE,
                   On WINDOW_MOVE, On WORKSPACE_FOCUS, MainLoop] @ new
               \<and> \<not> list_ex generates new \<and> \<not> list_ex subscribes new"
  using main_loop_trace[OF assms[unfolded start_def]] by auto

lemma emit_emit [simp]: "emit bs (emit as w) = emit (as @ bs) w"
  by (simp add: emit_def)

lemma starmap_runs:
  assumes "starmap cmd jobs w = (r, w')" "trace w' = trace w @ new"
  shows "list_ex is_run new = (jobs \<noteq> [])"
proof -
  obtain rs w2 where j: "run_jobs cmd jobs w = (rs, w2)" by fastforce
  with assms(1) have "w' = w2" by (simp add: starmap_def)
  with run_jobs_trace[OF j] assms(2) show ?thesis by auto
qed

section \<open>The concrete inputs\<close>

lemma wall_cached_neq [simp]: "wall_cached \<noteq> wall" "wall \<noteq> wall_cached"
  by (simp_all add: wall_cached_def wall_def example_paths_def)

lemma wall_nonempty [simp]: "wall \<noteq> []"
  by (simp add: wall_def)

lemma cached_example [simp]: "cachedImagePath example_paths wall (imageHash wall) = wall_cached"
  by (simp add: wall_cached_def)

lemma frame_example:
  "framePath example_paths h frame = ''/cache/frame-'' @ h @ ''-'' @ str_int frame @ ''.png''"
  by (simp add: example_paths_def)

lemma frame_neq [simp]:
  "framePath example_paths h frame \<noteq> wall" "framePath example_paths h frame \<noteq> wall_cached"
  "wall \<noteq> framePath example_paths h frame" "wall_cached \<noteq> framePath example_paths h frame"
  by (simp_all add: wall_cached_def wall_def example_paths_def)

lemma animationFrames_20_4: "animationFrames 20 4 = [5, 10, 15, 20]"
  by (simp add: animationFrames_def upt_rec)

lemmas eval_defs = run_def BlurManager_init_def init_output_def starmap_def verifyWallpaperCache_def
  paths_exists_def filecmp_cmp_def stat_sig_def shutil_copy_def genBlurredImage_def start_def
  handleBlur_def blur_def unblur_def makeOutput_def Let_def animationFrames_20_4
  working_env_def failing_env_def working_convert_def failing_convert_def wall_cfg_def

section \<open>The animation schedule\<close>

lemma length_animationFrames: "length (animationFrames s n) = nat n"
  by (simp add: animationFrames_def)

lemma nth_animationFrames:
  "i < nat n \<Longrightarrow> animationFrames s n ! i = (int i + 1) * (s div n)"
  by (simp add: animationFrames_def)

lemma step_times_duration_le:
  fixes s n :: int
  assumes "0 < n"
  shows "n * (s div n) \<le> s"
proof -
  have "n * (s div n) + s mod n = s" by simp
  moreover have "0 \<le> s mod n" using assms by simp
  ultimately show ?thesis by linarith
qed

text \<open>
  Claim C2, as amended. For a positive strength and a positive duration N the schedule is
  \<open>(i + 1) * floor (maxStrength / N)\<close> for \<open>i = 0, ..., N - 1\<close>: it has length
  exactly N, it never decreases and its last element is at most the strength. It is
  strictly increasing exactly when the duration does not exceed the strength (the step
  is then at least 1) or the schedule has a single element. For strength 20 and
  duration 4 it is 5, 10, 15, 20.
\<close>

theorem animationFrames_schedule:
  fixes maxStrength N :: int
  assumes "0 < maxStrength" and "0 < N"
  shows "animationFrames maxStrength N
           = map (\<lambda>i. (int i + 1) * (maxStrength div N)) [0..<nat N]
         \<and> length (animationFrames maxStrength N) = nat N
         \<and> sorted (animationFrames maxStrength N)
         \<and> last (animationFrames maxStrength N) \<le> maxStrength
         \<and> (sorted_wrt (<) (animationFrames maxStrength N) = (N \<le> maxStrength \<or> N = 1))"
proof -
  let ?fs = "animationFrames maxStrength N"
  have step0: "0 \<le> maxStrength div N"
    using assms by (simp add: pos_imp_zdiv_nonneg_iff)
  have eq: "?fs = map (\<lambda>i. (int i + 1) * (maxStrength div N)) [0..<nat N]"
    by (simp add: animationFrames_def comp_def)
  have len: "length ?fs = nat N"
    by (rule length_animationFrames)
  have mono: "sorted ?fs"
    unfolding sorted_wrt_iff_nth_less length_animationFrames
    using step0 by (auto simp: nth_animationFrames intro!: mult_right_mono)
  have ne: "?fs \<noteq> []"
    using assms len by auto
  have "last ?fs = ?fs ! (nat N - 1)"
    using ne by (simp add: last_conv_nth length_animationFrames)
  also have "\<dots> = N * (maxStrength div N)"
    using assms by (simp add: nth_animationFrames)
  also have "\<dots> \<le> maxStrength"
    using assms(2) by (rule step_times_duration_le)
  finally have lst: "last ?fs \<le> maxStrength" .
  have strict: "sorted_wrt (<) ?fs = (N \<le> maxStrength \<or> N = 1)"
  proof
    assume s: "sorted_wrt (<) ?fs"
    show "N \<le> maxStrength \<or> N = 1"
    proof (rule ccontr)
      assume "\<not> (N \<le> maxStrength \<or> N = 1)"
      with assms have big: "maxStrength < N" and two: "1 < nat N" by auto
      from big assms have z: "maxStrength div N = 0" by simp
      from s two have "?fs ! 0 < ?fs ! 1"
        unfolding sorted_wrt_iff_nth_less length_animationFrames by simp
      with two z show False by (simp add: nth_animationFrames)
    qed
  next
    assume "N \<le> maxStrength \<or> N = 1"
    then show "sorted_wrt (<) ?fs"
    proof
      assume "N \<le> maxStrength"
      with assms have "1 \<le> maxStrength div N"
        by (simp add: pos_imp_zdiv_pos_iff int_one_le_iff_zero_less)
      then show ?thesis
        unfolding sorted_wrt_iff_nth_less length_animationFrames
        by (auto simp: nth_animationFrames intro!: mult_strict_right_mono)
    next
      assume "N = 1"
      then show ?thesis by (simp add: animationFrames_def)
    qed
  qed
  from eq len mono lst strict show ?thesis by blast
qed

theorem animationFrames_schedule_witness:
  "(0::int) < 20 \<and> (0::int) < 4 \<and> animationFrames 20 4 = [5, 10, 15, 20]
   \<and> length (animationFrames 20 4) = 4 \<and> sorted_wrt (<) (animationFrames 20 4)
   \<and> last (animationFrames 20 4) \<le> 20"
proof -
  have h: "(0::int) < 20" "(0::int) < 4" by simp_all
  note t = animationFrames_schedule[OF h]
  from t[THEN conjunct2, THEN conjunct1]
  have len: "length (animationFrames 20 4) = 4" by simp
  from t[THEN conjunct2, THEN conjunct2, THEN conjunct2, THEN conjunct1]
  have lst: "last (animationFrames 20 4) \<le> 20" .
  from t[THEN conjunct2, THEN conjunct2, THEN conjunct2, THEN conjunct2]
  have strict: "sorted_wrt (<) (animationFrames 20 4)" by simp
  from h len lst strict animationFrames_20_4 show ?thesis by blast
qed

text \<open>
  The claim as stated fails: strength 3 and duration 4 are positive, the step is
  \<open>floor (3 / 4) = 0\<close> and the schedule is 0, 0, 0, 0.
\<close>

theorem animationFrames_not_strict:
  "(0::int) < 3 \<and> (0::int) < 4 \<and> animationFrames 3 4 = [0, 0, 0, 0]
   \<and> \<not> sorted_wrt (<) (animationFrames 3 4)"
  by (simp add: animationFrames_def upt_rec)

section \<open>The wallpaper cache\<close>

text \<open>
  What holds of the cache check as modelled: a cached copy with the bytes of the source
  is a hit; a missing cached copy is a miss that copies the source; the call after a
  miss is a hit; and the check reports a hit exactly when both files exist and have
  the same bytes or the same size and modification time.
\<close>

lemma verifyWallpaperCache_identical:
  assumes "files w p = Some f" and "files w (cachedImagePath P p h) = Some g"
    and "content f = content g"
  shows "verifyWallpaperCache P p h w =
           (Inr True, emit [Log INFO (''wallpaper '' @ p @ '' is cached as '' @ cachedImagePath P p h)] w)"
  using assms
  by (simp add: verifyWallpaperCache_def paths_exists_def filecmp_cmp_def stat_sig_def)

lemma verifyWallpaperCache_absent:
  assumes "files w p = Some f" and "files w (cachedImagePath P p h) = None"
  shows "fst (verifyWallpaperCache P p h w) = Inr False
         \<and> files (snd (verifyWallpaperCache P p h w))
             = (files w)(cachedImagePath P p h \<mapsto> \<lparr>content = content f, mtime = clock w\<rparr>)"
proof -
  from assms have "p \<noteq> cachedImagePath P p h" by auto
  with assms show ?thesis
    by (simp add: verifyWallpaperCache_def paths_exists_def shutil_copy_def Let_def)
qed

lemma verifyWallpaperCache_miss_then_hit:
  assumes "verifyWallpaperCache P p h w = (Inr False, w1)"
  shows "verifyWallpaperCache P p h w1 =
           (Inr True, emit [Log INFO (''wallpaper '' @ p @ '' is cached as '' @ cachedImagePath P p h)] w1)"
proof -
  let ?c = "cachedImagePath P p h"
  from assms obtain f where f: "files w p = Some f" and ne: "p \<noteq> ?c"
    and w1: "files w1 = (files w)(?c \<mapsto> \<lparr>content = content f, mtime = clock w\<rparr>)"
    by (auto simp: verifyWallpaperCache_def shutil_copy_def Let_def
        split: sum.splits bool.splits prod.splits option.splits if_splits)
  from f ne w1 have "files w1 p = Some f" "files w1 ?c = Some \<lparr>content = content f, mtime = clock w\<rparr>"
    by auto
  then show ?thesis
    by (rule verifyWallpaperCache_identical) simp
qed

lemma verifyWallpaperCache_hit_iff:
  "(fst (verifyWallpaperCache P p h w) = Inr True) =
     (\<exists>f g. files w p = Some f \<and> files w (cachedImagePath P p h) = Some g
        \<and> (content f = content g \<or> stat_sig f = stat_sig g))"
  by (auto simp: verifyWallpaperCache_def paths_exists_def filecmp_cmp_def stat_sig_def Let_def
      split: sum.splits bool.splits prod.splits option.splits if_splits)




text \<open>
  Claim C3, as amended. The check returns true exactly when a file exists at the
  cached path and is byte-identical to the source or has its size and modification
  time; it then writes no file and copies nothing. When it returns false it has copied
  the source over the cached path, and the next call with the source unchanged
  returns true and writes no file: a miss, then a hit.
\<close>

theorem verifyWallpaperCache_hit_or_copy:
  "(fst (verifyWallpaperCache P p h w) = Inr True) =
     (\<exists>f g. files w p = Some f \<and> files w (cachedImagePath P p h) = Some g
        \<and> (content f = content g \<or> stat_sig f = stat_sig g))
   \<and> (fst (verifyWallpaperCache P p h w) = Inr True \<longrightarrow>
        files (snd (verifyWallpaperCache P p h w)) = files w
        \<and> \<not> list_ex generates (drop (length (trace w)) (trace (snd (verifyWallpaperCache P p h w)))))
   \<and> (fst (verifyWallpaperCache P p h w) = Inr False \<longrightarrow>
        (\<exists>f. files w p = Some f
           \<and> files (snd (verifyWallpaperCache P p h w))
               = (files w)(cachedImagePath P p h \<mapsto> \<lparr>content = content f, mtime = clock w\<rparr>))
        \<and> fst (verifyWallpaperCache P p h (snd (verifyWallpaperCache P p h w))) = Inr True
        \<and> files (snd (verifyWallpaperCache P p h (snd (verifyWallpaperCache P p h w))))
            = files (snd (verifyWallpaperCache P p h w)))"
proof (intro conjI impI)
  show "(fst (verifyWallpaperCache P p h w) = Inr True) =
     (\<exists>f g. files w p = Some f \<and> files w (cachedImagePath P p h) = Some g
        \<and> (content f = content g \<or> stat_sig f = stat_sig g))"
    by (rule verifyWallpaperCache_hit_iff)
next
  assume "fst (verifyWallpaperCache P p h w) = Inr True"
  then have "verifyWallpaperCache P p h w = (Inr True, snd (verifyWallpaperCache P p h w))"
    by (simp add: prod_eq_iff)
  from verify_hit[OF this]
  show "files (snd (verifyWallpaperCache P p h w)) = files w"
    and "\<not> list_ex generates (drop (length (trace w)) (trace (snd (verifyWallpaperCache P p h w))))"
    by simp_all
next
  assume "fst (verifyWallpaperCache P p h w) = Inr False"
  then have m: "verifyWallpaperCache P p h w = (Inr False, snd (verifyWallpaperCache P p h w))"
    by (simp add: prod_eq_iff)
  then show "\<exists>f. files w p = Some f
           \<and> files (snd (verifyWallpaperCache P p h w))
               = (files w)(cachedImagePath P p h \<mapsto> \<lparr>content = content f, mtime = clock w\<rparr>)"
    by (auto simp: verifyWallpaperCache_def shutil_copy_def Let_def
        split: sum.splits bool.splits prod.splits option.splits if_splits)
  from verifyWallpaperCache_miss_then_hit[OF m]
  show "fst (verifyWallpaperCache P p h (snd (verifyWallpaperCache P p h w))) = Inr True"
    and "files (snd (verifyWallpaperCache P p h (snd (verifyWallpaperCache P p h w))))
            = files (snd (verifyWallpaperCache P p h w))"
    by simp_all
qed

theorem verifyWallpaperCache_hit_or_copy_witness:
  "fst (verifyWallpaperCache example_paths wall (imageHash wall) fresh_world) = Inr False
   \<and> fst (verifyWallpaperCache example_paths wall (imageHash wall)
            (snd (verifyWallpaperCache example_paths wall (imageHash wall) fresh_world))) = Inr True
   \<and> files (snd (verifyWallpaperCache example_paths wall (imageHash wall)
            (snd (verifyWallpaperCache example_paths wall (imageHash wall) fresh_world))))
       = files (snd (verifyWallpaperCache example_paths wall (imageHash wall) fresh_world))
   \<and> fst (verifyWallpaperCache example_paths wall (imageHash wall) hit_world) = Inr True
   \<and> files (snd (verifyWallpaperCache example_paths wall (imageHash wall) hit_world))
       = files hit_world"
proof -
  have m: "fst (verifyWallpaperCache example_paths wall (imageHash wall) fresh_world) = Inr False"
    by (simp add: eval_defs fresh_world_def)
  have h: "fst (verifyWallpaperCache example_paths wall (imageHash wall) hit_world) = Inr True"
    by (simp add: eval_defs hit_world_def)
  note a = verifyWallpaperCache_hit_or_copy[of example_paths wall "imageHash wall" fresh_world]
  note b = verifyWallpaperCache_hit_or_copy[of example_paths wall "imageHash wall" hit_world]
  from a m b h show ?thesis by blast
qed

text \<open>
  The claim as stated fails: on the input above, where the cached copy is not
  byte-identical to the source, two successive calls both return true, nothing is
  copied, and the cached copy still differs from the source after them.
\<close>

theorem verifyWallpaperCache_twice_stale:
  "(case verifyWallpaperCache example_paths wall (imageHash wall) stale_world of
      (r1, w1) \<Rightarrow>
        (case verifyWallpaperCache example_paths wall (imageHash wall) w1 of
           (r2, w2) \<Rightarrow>
             r1 = Inr True \<and> r2 = Inr True \<and> \<not> list_ex generates (trace w2)
             \<and> map_option content (files w2 wall_cached) \<noteq> map_option content (files w2 wall)))"
  by (simp add: verifyWallpaperCache_def stale_world_def paths_exists_def filecmp_cmp_def
      stat_sig_def)

section \<open>Frame generation\<close>

text \<open>
  The pool, by the kind of filter it runs: what the call returns and what it logs.
\<close>

lemma emit_Nil [simp]: "emit [] w = w"
  by (simp add: emit_def)
























text \<open>
  Claim C5, as amended. For an output with a wallpaper, frame generation is triggered
  if and only if the cache check reports a miss. On a hit the only thing that follows
  is the message that the blurred wallpaper exists: no file is read or written, no
  filter runs, and the Output is registered as it is. On a miss the filter is run for
  the frames (for at least one when there is a frame, for every frame when the pool
  returns).
\<close>

theorem generation_iff_miss:
  assumes "cfg_image c = Some img" and "img \<noteq> []"
    and "verifyWallpaperCache P img (imageHash img) w = (Inr hit, w1)"
    and "init_output env P frames name c self w = (r, w')"
  shows "\<exists>new. trace w' = trace w1 @ new
           \<and> ((Print ''Generating blurred wallpaper frames'' \<in> set new) = (\<not> hit))
           \<and> (hit \<longrightarrow> new = [Print (''Blurred wallpaper exists for '' @ name)]
                    \<and> files w' = files w
                    \<and> r = Inr (self\<lparr>outputs := (outputs self)(name \<mapsto> makeOutput P frames name img c)\<rparr>))
           \<and> (\<not> hit \<longrightarrow> list_ex is_run new = (frames \<noteq> [])
                    \<and> ((\<exists>m. r = Inr m) \<longrightarrow>
                          list_all (\<lambda>frame. Run (frame_job P img frame) \<in> set new) frames))"
proof (cases hit)
  case True
  with assms(3) have "w1 = emit [Log INFO (''wallpaper '' @ img @ '' is cached as '' @ cachedImagePath P img (imageHash img))] w"
    by (auto dest: verify_hit)
  with True assms show ?thesis
    by (auto simp: init_output_def Let_def)
next
  case False
  let ?jobs = "map (\<lambda>frame. (cachedImagePath P img (imageHash img), framePath P (imageHash img) frame, frame)) frames"
  let ?w1 = "emit [Print ''Generating blurred wallpaper frames'', Print ''This may take a minute...''] w1"
  obtain rs w2 where s: "starmap (convert env) ?jobs ?w1 = (rs, w2)" by fastforce
  from starmap_trace[OF s] obtain n2 where
    n: "trace w2 = trace ?w1 @ n2" "list_all (\<lambda>a. is_log a \<or> is_run a) n2"
       "rs = Inr () \<longrightarrow> list_all (\<lambda>(i, out, lvl). Run [''convert'', i, ''-blur'', ''0x'' @ str_int lvl, out] \<in> set n2) ?jobs"
    by blast
  have runs: "list_ex is_run n2 = (frames \<noteq> [])"
    using starmap_runs[OF s n(1)] by simp
  have noprint: "Print ''Generating blurred wallpaper frames'' \<notin> set n2"
    using n(2) by (auto simp: list_all_iff)
  show ?thesis
  proof (cases rs)
    case (Inl e)
    with False assms s have "r = Inl e" "w' = w2" by (auto simp: init_output_def Let_def)
    with n(1) runs False show ?thesis
      by (intro exI[of _ "[Print ''Generating blurred wallpaper frames'', Print ''This may take a minute...''] @ n2"])
         simp
  next
    case (Inr u)
    with False assms s have w': "w' = emit [Print (''Blurred wallpaper generated for '' @ name)] w2"
      by (auto simp: init_output_def Let_def)
    from Inr n(3) have all: "list_all (\<lambda>frame. Run (frame_job P img frame) \<in> set n2) frames"
      by (auto simp: list_all_iff frame_job_def)
    show ?thesis
      apply (rule exI[of _ "[Print ''Generating blurred wallpaper frames'', Print ''This may take a minute...''] @ n2 @ [Print (''Blurred wallpaper generated for '' @ name)]"])
      using w' n(1) runs False all by (auto simp: list_all_iff)
  qed
qed

theorem generation_iff_miss_witness:
  "cfg_image wall_cfg = Some wall \<and> wall \<noteq> []
   \<and> fst (verifyWallpaperCache example_paths wall (imageHash wall) hit_world) = Inr True
   \<and> fst (verifyWallpaperCache example_paths wall (imageHash wall) fresh_world) = Inr False
   \<and> (\<exists>new. trace (snd (init_output working_env example_paths [5, 10] ''eDP-1'' wall_cfg
                            \<lparr>outputs = Map.empty\<rparr> hit_world))
               = trace (snd (verifyWallpaperCache example_paths wall (imageHash wall) hit_world)) @ new
             \<and> Print ''Generating blurred wallpaper frames'' \<notin> set new
             \<and> \<not> list_ex is_run new)
   \<and> (\<exists>new. trace (snd (init_output working_env example_paths [5, 10] ''eDP-1'' wall_cfg
                            \<lparr>outputs = Map.empty\<rparr> fresh_world))
               = trace (snd (verifyWallpaperCache example_paths wall (imageHash wall) fresh_world)) @ new
             \<and> Print ''Generating blurred wallpaper frames'' \<in> set new
             \<and> list_all (\<lambda>frame. Run (frame_job example_paths wall frame) \<in> set new) [5, 10])"
proof -
  let ?vh = "verifyWallpaperCache example_paths wall (imageHash wall) hit_world"
  let ?vm = "verifyWallpaperCache example_paths wall (imageHash wall) fresh_world"
  let ?ih = "init_output working_env example_paths [5, 10] ''eDP-1'' wall_cfg \<lparr>outputs = Map.empty\<rparr> hit_world"
  let ?im = "init_output working_env example_paths [5, 10] ''eDP-1'' wall_cfg \<lparr>outputs = Map.empty\<rparr> fresh_world"
  have c: "cfg_image wall_cfg = Some wall" by (simp add: wall_cfg_def)
  have h: "fst ?vh = Inr True" by (simp add: eval_defs hit_world_def)
  have m: "fst ?vm = Inr False" by (simp add: eval_defs fresh_world_def)
  have ok: "\<exists>k. fst ?im = Inr k" by (simp add: eval_defs fresh_world_def)
  have vh: "?vh = (Inr True, snd ?vh)" using h by (simp add: prod_eq_iff)
  have vm: "?vm = (Inr False, snd ?vm)" using m by (simp add: prod_eq_iff)
  have ih: "?ih = (fst ?ih, snd ?ih)" by simp
  have im: "?im = (fst ?im, snd ?im)" by simp
  from generation_iff_miss[OF c wall_nonempty vh ih]
  have 1: "\<exists>new. trace (snd ?ih) = trace (snd ?vh) @ new
             \<and> Print ''Generating blurred wallpaper frames'' \<notin> set new \<and> \<not> list_ex is_run new"
    by auto
  from generation_iff_miss[OF c wall_nonempty vm im] ok
  have 2: "\<exists>new. trace (snd ?im) = trace (snd ?vm) @ new
             \<and> Print ''Generating blurred wallpaper frames'' \<in> set new
             \<and> list_all (\<lambda>frame. Run (frame_job example_paths wall frame) \<in> set new) [5, 10]"
    by auto
  from c h m 1 2 show ?thesis by simp
qed

text \<open>
  The claim as stated fails: with the wallpaper cached and none of its four frames on
  disk, the constructor returns a manager whose Output lists the four frames; nothing
  was generated or copied, and none of the frames exists.
\<close>

theorem cache_hit_trusts_missing_frames:
  "(case BlurManager_init working_env example_paths [(''eDP-1'', wall_cfg)] 20 4 hit_world of
      (Inl e, w') \<Rightarrow> False
    | (Inr m, w') \<Rightarrow>
        (case outputs m ''eDP-1'' of
           None \<Rightarrow> False
         | Some out \<Rightarrow>
             length (out_frames out) = 4
             \<and> \<not> list_ex (paths_exists (files w')) (out_frames out)
             \<and> \<not> list_ex generates (trace w')))"
  by (simp add: eval_defs hit_world_def)

section \<open>The event handler\<close>

text \<open>
  Claim C6. When the tree query yields a focused container, its workspace and the
  workspace's output name, and that name has an Output: if the focused container is
  the workspace itself the handler calls \<^verbatim>\<open>unblur()\<close> on that Output and never
  \<^verbatim>\<open>blur()\<close>; otherwise it calls \<^verbatim>\<open>blur()\<close> on it and never \<^verbatim>\<open>unblur()\<close>.
\<close>

theorem handleBlur_dispatch:
  assumes "find_focused t = Some focusedWindow"
    and "workspace t = Some focusedWorkspace"
    and "map_of (ipc_data focusedWorkspace) ''output'' = Some name"
    and "outputs self name = Some out"
  shows "handleBlur self t w =
           (Inr (), (if con_id focusedWindow = con_id focusedWorkspace
                     then unblur out else blur out) (emit [GetTree] w))
         \<and> (if con_id focusedWindow = con_id focusedWorkspace
            then Unblur (out_name out) \<in> set (drop (length (trace w)) (trace (snd (handleBlur self t w))))
               \<and> \<not> list_ex calls_blur (drop (length (trace w)) (trace (snd (handleBlur self t w))))
            else Blur (out_name out) \<in> set (drop (length (trace w)) (trace (snd (handleBlur self t w))))
               \<and> \<not> list_ex calls_unblur (drop (length (trace w)) (trace (snd (handleBlur self t w)))))"
  using assms
  by (auto simp: handleBlur_def Let_def blur_def unblur_def list_ex_iff)

theorem handleBlur_dispatch_witness:
  "outputs wall_manager ''eDP-1'' = Some wall_output
   \<and> handleBlur wall_manager (empty_workspace ''eDP-1'') fresh_world
       = (Inr (), unblur wall_output (emit [GetTree] fresh_world))
   \<and> handleBlur wall_manager (window_on ''eDP-1'') fresh_world
       = (Inr (), blur wall_output (emit [GetTree] fresh_world))"
  using handleBlur_dispatch[of "empty_workspace ''eDP-1''"
          "Con 4 [(''type'', ''workspace''), (''output'', ''eDP-1'')]"
          "Con 4 [(''type'', ''workspace''), (''output'', ''eDP-1'')]"
          "''eDP-1''" wall_manager wall_output fresh_world]
        handleBlur_dispatch[of "window_on ''eDP-1''"
          "Con 9 [(''type'', ''con'')]"
          "Con 4 [(''type'', ''workspace''), (''output'', ''eDP-1'')]"
          "''eDP-1''" wall_manager wall_output fresh_world]
  by (simp add: empty_workspace_def window_on_def wall_manager_def)

text \<open>
  Claim C7. When the resolved output name has no Output, the handler returns normally,
  writes nothing to the display sink, logs the situation at level INFO, and the loop
  goes on with the next event.
\<close>

theorem handleBlur_unknown_output:
  assumes "find_focused t = Some focusedWindow"
    and "workspace t = Some focusedWorkspace"
    and "map_of (ipc_data focusedWorkspace) ''output'' = Some name"
    and "outputs self name = None"
  shows "handleBlur self t w =
           (Inr (), emit [GetTree, Log INFO (''Output '' @ name @ '' is not an Output object'')] w)
         \<and> \<not> list_ex is_sink_write (drop (length (trace w)) (trace (snd (handleBlur self t w))))
         \<and> main_loop self (t # ts) w =
             main_loop self ts
               (emit [GetTree, Log INFO (''Output '' @ name @ '' is not an Output object'')] w)"
  using assms
  by (auto simp: handleBlur_def Let_def)

theorem handleBlur_unknown_output_witness:
  "outputs wall_manager ''HDMI-A-1'' = None
   \<and> handleBlur wall_manager (window_on ''HDMI-A-1'') fresh_world
       = (Inr (), emit [GetTree, Log INFO ''Output HDMI-A-1 is not an Output object''] fresh_world)
   \<and> main_loop wall_manager [window_on ''HDMI-A-1'', empty_workspace ''eDP-1''] fresh_world
       = main_loop wall_manager [empty_workspace ''eDP-1'']
           (emit [GetTree, Log INFO ''Output HDMI-A-1 is not an Output object''] fresh_world)"
  using handleBlur_unknown_output[of "window_on ''HDMI-A-1''"
          "Con 9 [(''type'', ''con'')]"
          "Con 4 [(''type'', ''workspace''), (''output'', ''HDMI-A-1'')]"
          "''HDMI-A-1''" wall_manager fresh_world "[empty_workspace ''eDP-1'']"]
  by (simp add: window_on_def wall_manager_def)

text \<open>
  Claim C9, as amended. The handler returns normally exactly when the tree query
  yields a focused container, a workspace for it and an output name in the workspace's
  data, whether or not that name has an Output; the loop then goes on with the next
  event.
\<close>

theorem handleBlur_returns:
  "(fst (handleBlur self t w) = Inr ()) =
     (\<exists>win ws name. find_focused t = Some win \<and> workspace t = Some ws
        \<and> map_of (ipc_data ws) ''output'' = Some name)
   \<and> (fst (handleBlur self t w) = Inr () \<longrightarrow>
        main_loop self (t # ts) w = main_loop self ts (snd (handleBlur self t w)))"
  by (auto simp: handleBlur_def Let_def split: option.splits prod.splits sum.splits)

theorem handleBlur_returns_witness:
  "fst (handleBlur wall_manager (window_on ''HDMI-A-1'') fresh_world) = Inr ()
   \<and> main_loop wall_manager [window_on ''HDMI-A-1'', empty_workspace ''eDP-1''] fresh_world
       = main_loop wall_manager [empty_workspace ''eDP-1'']
           (snd (handleBlur wall_manager (window_on ''HDMI-A-1'') fresh_world))"
  using handleBlur_returns[of wall_manager "window_on ''HDMI-A-1''" fresh_world
          "[empty_workspace ''eDP-1'']"]
  by (simp add: window_on_def)

text \<open>
  The claim as stated fails: when nothing is focused the handler raises
  AttributeError, which is not caught, and the loop ends without handling the event
  that follows.
\<close>

theorem handleBlur_no_focus_raises:
  "handleBlur wall_manager no_focus fresh_world = (Inl AttributeError, emit [GetTree] fresh_world)
   \<and> main_loop wall_manager [no_focus, empty_workspace ''eDP-1''] fresh_world
       = (Inl AttributeError, emit [GetTree] fresh_world)"
  by (simp add: handleBlur_def no_focus_def)

section \<open>The startup order\<close>

text \<open>
  Claim C8, as amended. The trace of a run splits into the calls of the constructor
  followed by the calls of \<^verbatim>\<open>start\<close>: the first part holds no subscription and no entry
  into the main loop, the second no copy and no filter run; and when a subscription
  occurs, the first part holds, for every configuration entry with a wallpaper, the
  cache check's hit or its copy together with one filter call per frame. What the
  handling of an entry leaves on disk is the cached copy: when the loop body returns
  for an entry with a wallpaper, its cache check has returned and left at the cached
  path a file with the bytes of the source or with its size and modification time.
  Nothing is said of the frame files.
\<close>

theorem startup_order:
  assumes "run env P cfgs S N events w = (r, w')"
  shows "(\<exists>prep loop. trace w' = trace w @ prep @ loop
           \<and> \<not> list_ex subscribes prep \<and> \<not> list_ex generates loop
           \<and> (list_ex subscribes loop \<longrightarrow>
                list_all (\<lambda>(name, c). cfg_handled P (animationFrames S N) prep c) cfgs))
         \<and> (init_output env P (animationFrames S N) name c self v = (Inr m, v')
              \<and> cfg_image c = Some img \<and> img \<noteq> [] \<longrightarrow>
            (\<exists>hit v1. verifyWallpaperCache P img (imageHash img) v = (Inr hit, v1)
               \<and> (\<exists>f g. files v1 img = Some f
                     \<and> files v1 (cachedImagePath P img (imageHash img)) = Some g
                     \<and> (content f = content g \<or> stat_sig f = stat_sig g))))"
proof -
  obtain r1 w1 where i: "BlurManager_init env P cfgs S N w = (r1, w1)" by fastforce
  from init_trace[OF i] obtain prep where
    s: "trace w1 = trace w @ prep" "\<not> list_ex subscribes prep"
       "\<forall>m. r1 = Inr m \<longrightarrow> list_all (\<lambda>(name, c). cfg_handled P (animationFrames S N) prep c) cfgs"
    by blast
  have order: "\<exists>prep loop. trace w' = trace w @ prep @ loop
           \<and> \<not> list_ex subscribes prep \<and> \<not> list_ex generates loop
           \<and> (list_ex subscribes loop \<longrightarrow>
                list_all (\<lambda>(name, c). cfg_handled P (animationFrames S N) prep c) cfgs)"
  proof (cases r1)
    case (Inl e)
    with assms i have "w' = w1" by (simp add: run_def)
    with s show ?thesis by (intro exI[of _ prep] exI[of _ "[]"]) simp
  next
    case (Inr m)
    with assms i have st: "start m events w1 = (r, w')" by (simp add: run_def)
    from start_trace[OF st] obtain new where
      n: "trace w' = trace w1 @ [Print ''Listening...'', On WINDOW_NEW, On WINDOW_CLOSE,
                   On WINDOW_MOVE, On WORKSPACE_FOCUS, MainLoop] @ new"
         "\<not> list_ex generates new" by blast
    show ?thesis
      apply (rule exI[of _ prep])
      apply (rule exI[of _ "[Print ''Listening...'', On WINDOW_NEW, On WINDOW_CLOSE,
                   On WINDOW_MOVE, On WORKSPACE_FOCUS, MainLoop] @ new"])
      using s n Inr by (simp add: list_ex_iff)
  qed
  have cache: "\<exists>hit v1. verifyWallpaperCache P img (imageHash img) v = (Inr hit, v1)
               \<and> (\<exists>f g. files v1 img = Some f
                     \<and> files v1 (cachedImagePath P img (imageHash img)) = Some g
                     \<and> (content f = content g \<or> stat_sig f = stat_sig g))"
    if o: "init_output env P (animationFrames S N) name c self v = (Inr m, v')"
      and c: "cfg_image c = Some img" "img \<noteq> []"
  proof -
    obtain rv v1 where vc: "verifyWallpaperCache P img (imageHash img) v = (rv, v1)" by fastforce
    with o c obtain hit where hit: "rv = Inr hit"
      by (cases rv) (auto simp: init_output_def Let_def)
    from vc[unfolded hit]
    have "\<exists>f g. files v1 img = Some f
            \<and> files v1 (cachedImagePath P img (imageHash img)) = Some g
            \<and> (content f = content g \<or> stat_sig f = stat_sig g)"
      by (auto simp: verifyWallpaperCache_def Let_def paths_exists_def filecmp_cmp_def
          shutil_copy_def emit_def
          split: option.splits if_splits sum.splits bool.splits prod.splits)
    with vc hit show ?thesis by blast
  qed
  from order cache show ?thesis by blast
qed

theorem startup_order_witness:
  "(\<exists>prep loop.
     trace (snd (run working_env example_paths [(''eDP-1'', wall_cfg)] 20 4
                   [window_on ''eDP-1''] fresh_world))
       = trace fresh_world @ prep @ loop
     \<and> \<not> list_ex subscribes prep \<and> \<not> list_ex generates loop \<and> list_ex subscribes loop
     \<and> list_all (\<lambda>(name, c). cfg_handled example_paths (animationFrames 20 4) prep c)
          [(''eDP-1'', wall_cfg)])
   \<and> (\<exists>v1. verifyWallpaperCache example_paths wall (imageHash wall) fresh_world = (Inr False, v1)
         \<and> (\<exists>f g. files v1 wall = Some f \<and> files v1 wall_cached = Some g
               \<and> (content f = content g \<or> stat_sig f = stat_sig g)))"
proof -
  let ?R = "run working_env example_paths [(''eDP-1'', wall_cfg)] 20 4 [window_on ''eDP-1''] fresh_world"
  let ?I = "init_output working_env example_paths (animationFrames 20 4) ''eDP-1'' wall_cfg
              \<lparr>outputs = Map.empty\<rparr> fresh_world"
  have e: "?R = (fst ?R, snd ?R)" by simp
  have c: "cfg_image wall_cfg = Some wall" by (simp add: wall_cfg_def)
  have "fst ?I = Inr wall_manager"
    by (simp add: eval_defs fresh_world_def wall_manager_def wall_output_def)
  then have i: "?I = (Inr wall_manager, snd ?I)" by (simp add: prod_eq_iff)
  have miss: "fst (verifyWallpaperCache example_paths wall (imageHash wall) fresh_world) = Inr False"
    by (simp add: eval_defs fresh_world_def)
  note so = startup_order[OF e, where name = "''eDP-1''" and c = wall_cfg
      and self = "\<lparr>outputs = Map.empty\<rparr>" and v = fresh_world and m = wall_manager
      and v' = "snd ?I" and img = wall]
  from so[THEN conjunct1] obtain prep loop where
    p: "trace (snd ?R) = trace fresh_world @ prep @ loop"
       "\<not> list_ex subscribes prep" "\<not> list_ex generates loop"
       "list_ex subscribes loop \<longrightarrow>
          list_all (\<lambda>(name, c). cfg_handled example_paths (animationFrames 20 4) prep c)
            [(''eDP-1'', wall_cfg)]"
    by blast
  have "list_ex subscribes (trace (snd ?R))"
    by (simp add: eval_defs fresh_world_def window_on_def)
  with p(1,2) have "list_ex subscribes loop"
    by (auto simp: list_ex_iff fresh_world_def)
  with p have 1: "\<exists>prep loop.
     trace (snd ?R) = trace fresh_world @ prep @ loop
     \<and> \<not> list_ex subscribes prep \<and> \<not> list_ex generates loop \<and> list_ex subscribes loop
     \<and> list_all (\<lambda>(name, c). cfg_handled example_paths (animationFrames 20 4) prep c)
          [(''eDP-1'', wall_cfg)]" by blast
  from so[THEN conjunct2] i c miss
  have 2: "\<exists>v1. verifyWallpaperCache example_paths wall (imageHash wall) fresh_world = (Inr False, v1)
         \<and> (\<exists>f g. files v1 wall = Some f \<and> files v1 wall_cached = Some g
               \<and> (content f = content g \<or> stat_sig f = stat_sig g))"
    by auto
  from 1 2 show ?thesis by blast
qed

text \<open>
  The claim as stated fails: with the wallpaper cached and none of its frames on disk,
  the run subscribes after the cache check alone; no filter was called, no file was
  written, and none of the frames of the Output exists.
\<close>

theorem subscription_without_frames:
  "(case run working_env example_paths [(''eDP-1'', wall_cfg)] 20 4 [] hit_world of
      (r, w') \<Rightarrow>
        r = Inr () \<and> list_ex subscribes (trace w')
        \<and> cfg_handled example_paths (animationFrames 20 4) (trace w') wall_cfg
        \<and> \<not> list_ex generates (trace w')
        \<and> files w' = files hit_world
        \<and> \<not> list_ex (paths_exists (files w')) (out_frames wall_output))"
  by (simp add: eval_defs hit_world_def wall_output_def cfg_handled_def handled_def)

section \<open>The wallpaper identity\<close>

text \<open>
  The digest of the model on two test vectors of RFC 1321.
\<close>

lemma md5_hexdigest_empty: "md5_hexdigest [] = ''d41d8cd98f00b204e9800998ecf8427e''"
  by code_simp

lemma md5_hexdigest_abc: "md5_hexdigest ''abc'' = ''900150983cd24fb0d6963f7d28e17f72''"
  by code_simp

text \<open>
  Claim C10, as amended. The identity of a wallpaper is the MD5 digest of its path
  string and of nothing else. The Outputs a constructor call registers are those read
  off the configuration alone, so two calls on the same configuration register the
  same Outputs whatever the files hold; equal path strings give equal identities,
  cached-image paths and frame-path lists; and equal identities give equal frame-path
  lists.
\<close>

theorem identity_from_path:
  "(fst (BlurManager_init env P cfgs S N w) = Inr m \<longrightarrow>
      outputs m = configured_outputs P (animationFrames S N) cfgs Map.empty)
   \<and> (fst (BlurManager_init env P cfgs S N w) = Inr m
        \<and> fst (BlurManager_init env' P cfgs S N w2) = Inr m2 \<longrightarrow> outputs m = outputs m2)
   \<and> (img1 = img2 \<longrightarrow>
        imageHash img1 = imageHash img2
        \<and> out_wallpaper (makeOutput P frames n1 img1 c1) = out_wallpaper (makeOutput P frames n2 img2 c2)
        \<and> out_frames (makeOutput P frames n1 img1 c1) = out_frames (makeOutput P frames n2 img2 c2))
   \<and> (imageHash img1 = imageHash img2 \<longrightarrow>
        out_frames (makeOutput P frames n1 img1 c1) = out_frames (makeOutput P frames n2 img2 c2))"
proof -
  have a: "outputs k = configured_outputs P (animationFrames S N) cfgs Map.empty"
    if "fst (BlurManager_init e P cfgs S N v) = Inr k" for e v k
  proof -
    have "BlurManager_init e P cfgs S N v = (Inr k, snd (BlurManager_init e P cfgs S N v))"
      using that by (simp add: prod_eq_iff)
    from init_trace[OF this] show ?thesis by blast
  qed
  show ?thesis
    using a[of env w m] a[of env' w2 m2] by (auto simp: makeOutput_def)
qed

theorem identity_from_path_witness:
  "fst (BlurManager_init working_env example_paths [(''eDP-1'', wall_cfg)] 20 4 hit_world)
     = Inr wall_manager
   \<and> fst (BlurManager_init working_env example_paths [(''eDP-1'', wall_cfg)] 20 4 replaced_world)
     = Inr wall_manager
   \<and> map_option content (files hit_world wall) \<noteq> map_option content (files replaced_world wall)
   \<and> outputs wall_manager
     = configured_outputs example_paths (animationFrames 20 4) [(''eDP-1'', wall_cfg)] Map.empty"
proof -
  have a: "fst (BlurManager_init working_env example_paths [(''eDP-1'', wall_cfg)] 20 4 hit_world)
     = Inr wall_manager"
    by (simp add: eval_defs hit_world_def wall_manager_def wall_output_def)
  have b: "fst (BlurManager_init working_env example_paths [(''eDP-1'', wall_cfg)] 20 4 replaced_world)
     = Inr wall_manager"
    by (simp add: eval_defs replaced_world_def wall_manager_def wall_output_def)
  have c: "map_option content (files hit_world wall) \<noteq> map_option content (files replaced_world wall)"
    by (simp add: hit_world_def replaced_world_def)
  from identity_from_path[of working_env example_paths "[(''eDP-1'', wall_cfg)]" 20 4 hit_world
      wall_manager working_env replaced_world wall_manager] a
  have "outputs wall_manager
     = configured_outputs example_paths (animationFrames 20 4) [(''eDP-1'', wall_cfg)] Map.empty"
    by blast
  with a b c show ?thesis by blast
qed

text \<open>
  The claim as stated fails in the direction from equal identities to equal paths: the
  two path strings below differ in one character and have the same MD5 digest.
\<close>

lemma md5_collision_left:
  "md5_hexdigest ''TEXTCOLLBYfGiJUETHQ4hAcKSMd5zYpgqf1YRDhkmxHkhPWptrkoyz28wnI9V0aHeAuaKnak''
     = ''faad49866e9498fc1719f5289e7a0269''"
  by code_simp

lemma md5_collision_right:
  "md5_hexdigest ''TEXTCOLLBYfGiJUETHQ4hEcKSMd5zYpgqf1YRDhkmxHkhPWptrkoyz28wnI9V0aHeAuaKnak''
     = ''faad49866e9498fc1719f5289e7a0269''"
  by code_simp

theorem imageHash_collision:
  "imageHash ''TEXTCOLLBYfGiJUETHQ4hAcKSMd5zYpgqf1YRDhkmxHkhPWptrkoyz28wnI9V0aHeAuaKnak''
     = imageHash ''TEXTCOLLBYfGiJUETHQ4hEcKSMd5zYpgqf1YRDhkmxHkhPWptrkoyz28wnI9V0aHeAuaKnak''
   \<and> ''TEXTCOLLBYfGiJUETHQ4hAcKSMd5zYpgqf1YRDhkmxHkhPWptrkoyz28wnI9V0aHeAuaKnak''
     \<noteq> ''TEXTCOLLBYfGiJUETHQ4hEcKSMd5zYpgqf1YRDhkmxHkhPWptrkoyz28wnI9V0aHeAuaKnak''"
  by (simp add: imageHash_def md5_collision_left md5_collision_right)

end
